theory Spec2Isabelle
  imports Main "HOL-Library.Word"
begin

section \<open>The tap device handle of the Networking plugin (TapInterface.cpp)\<close>

text \<open>
  \<^verbatim>\<open>TapInterface\<close> owns one file descriptor, \<^verbatim>\<open>mFd\<close>, of the kernel's tun/tap control
  device, and forwards four link operations to a \<^verbatim>\<open>Netlink\<close> object under the fixed
  interface name \<^verbatim>\<open>TAP_NAME\<close>. The member functions are embedded one by one, each
  returning its C++ result together with the object after the call and the record of the
  calls made on the outside world. Logging (\<^verbatim>\<open>AI_LOG_SYS_ERROR\<close>) has no effect on the
  object or on the result and is left out.
\<close>

subsection \<open>Data\<close>

text \<open>A C \<^verbatim>\<open>int\<close>: 32 bits, compared as a signed value (\<open>\<le>s\<close>, \<open><s\<close>).\<close>

type_synonym c_int = "32 word"

text \<open>\<^verbatim>\<open>std::array<uint8_t, 6>\<close>: exactly six bytes.\<close>

type_synonym mac = "8 word \<times> 8 word \<times> 8 word \<times> 8 word \<times> 8 word \<times> 8 word"

text \<open>\<^verbatim>\<open>#define TAP_NAME "dobby_tap0"\<close>\<close>

definition TAP_NAME :: string where
  "TAP_NAME = ''dobby_tap0''"

text \<open>
  The macros of the system headers (\<^verbatim>\<open><fcntl.h>\<close>, \<^verbatim>\<open><net/if.h>\<close>, \<^verbatim>\<open><linux/if_tun.h>\<close>)
  are not part of the repository. The flag bits are kept symbolic, a bitwise or of flags
  being the set of the flags; \<^verbatim>\<open>IFNAMSIZ\<close> is the size of the name field of
  \<^verbatim>\<open>struct ifreq\<close>, 16 on Linux.
\<close>

datatype open_flag = O_CLOEXEC | O_RDWR

datatype if_flag = IFF_TAP | IFF_NO_PI | IFF_ONE_QUEUE

datatype ioctl_request = TUNSETIFF

definition IFNAMSIZ :: nat where
  "IFNAMSIZ = 16"

text \<open>
  The two members of \<^verbatim>\<open>struct ifreq\<close> that the code sets after \<^verbatim>\<open>bzero\<close>. The name
  field is read as a C string, so the null padding that \<^verbatim>\<open>bzero\<close> and \<^verbatim>\<open>strncpy\<close> leave
  behind the name is not part of the value.
\<close>

record ifreq =
  ifr_name :: string
  ifr_flags :: "if_flag set"

text \<open>\<^verbatim>\<open>strncpy(dst, src, n)\<close> into a zeroed buffer: at most \<open>n\<close> characters of \<open>src\<close>.\<close>

definition strncpy :: "string \<Rightarrow> nat \<Rightarrow> string" where
  "strncpy src n = take n src"

text \<open>The object itself: its only data member.\<close>

record TapInterface =
  mFd :: c_int

subsection \<open>The kernel\<close>

text \<open>
  The three system calls the code makes. The world the code runs in is the list of the
  system calls made so far, oldest first; a kernel is any function that gives the return
  value of a call from the calls before it. Every call is appended to the list, so a
  member function that leaves the list as it was has made no system call.
\<close>

datatype syscall =
    Open string "open_flag set"
  | Ioctl c_int ioctl_request ifreq
  | Close c_int

type_synonym kernel = "syscall list \<Rightarrow> syscall \<Rightarrow> c_int"

definition sys :: "kernel \<Rightarrow> syscall \<Rightarrow> syscall list \<Rightarrow> c_int \<times> syscall list" where
  "sys k c w = (k w c, w @ [c])"

subsection \<open>The Netlink object\<close>

text \<open>
  \<^verbatim>\<open>Netlink.h\<close> is not among the sources; the class is a parameter of the four member
  functions that take it. Of the class the code uses four methods, addressed by interface
  name. As for the kernel, the state of the object is the list of the calls made on it,
  and a \<open>Netlink\<close> is any choice of the four results from the calls before.
\<close>

datatype netlink_call =
    IfaceUp string
  | IfaceDown string
  | GetIfaceMAC string
  | SetIfaceMAC string mac

record Netlink =
  ifaceUp_result :: "netlink_call list \<Rightarrow> string \<Rightarrow> bool"
  ifaceDown_result :: "netlink_call list \<Rightarrow> string \<Rightarrow> bool"
  getIfaceMAC_result :: "netlink_call list \<Rightarrow> string \<Rightarrow> mac"
  setIfaceMAC_result :: "netlink_call list \<Rightarrow> string \<Rightarrow> mac \<Rightarrow> bool"

definition ifaceUp :: "Netlink \<Rightarrow> string \<Rightarrow> netlink_call list \<Rightarrow> bool \<times> netlink_call list" where
  "ifaceUp nl ifname n = (ifaceUp_result nl n ifname, n @ [IfaceUp ifname])"

definition ifaceDown :: "Netlink \<Rightarrow> string \<Rightarrow> netlink_call list \<Rightarrow> bool \<times> netlink_call list" where
  "ifaceDown nl ifname n = (ifaceDown_result nl n ifname, n @ [IfaceDown ifname])"

definition getIfaceMAC :: "Netlink \<Rightarrow> string \<Rightarrow> netlink_call list \<Rightarrow> mac \<times> netlink_call list" where
  "getIfaceMAC nl ifname n = (getIfaceMAC_result nl n ifname, n @ [GetIfaceMAC ifname])"

definition setIfaceMAC ::
  "Netlink \<Rightarrow> string \<Rightarrow> mac \<Rightarrow> netlink_call list \<Rightarrow> bool \<times> netlink_call list" where
  "setIfaceMAC nl ifname address n =
     (setIfaceMAC_result nl n ifname address, n @ [SetIfaceMAC ifname address])"

subsection \<open>The member functions\<close>

text \<open>
  \<^verbatim>\<open>bool TapInterface::createTapInterface()\<close>. The result of \<^verbatim>\<open>open\<close> is stored in
  \<^verbatim>\<open>mFd\<close> before it is tested; the return value of \<^verbatim>\<open>close\<close> on the failure path is
  dropped.
\<close>

definition createTapInterface ::
  "kernel \<Rightarrow> TapInterface \<Rightarrow> syscall list \<Rightarrow> bool \<times> TapInterface \<times> syscall list" where
  "createTapInterface k this w =
     (if 0 \<le>s mFd this then (True, this, w)
      else
        let (fd, w1) = sys k (Open ''/dev/net/tun'' {O_CLOEXEC, O_RDWR}) w;
            this1 = this\<lparr>mFd := fd\<rparr>
        in if mFd this1 <s 0 then (False, this1, w1)
           else
             let ifr = \<lparr>ifr_name = strncpy TAP_NAME IFNAMSIZ,
                        ifr_flags = {IFF_TAP, IFF_NO_PI, IFF_ONE_QUEUE}\<rparr>;
                 (ret, w2) = sys k (Ioctl (mFd this1) TUNSETIFF ifr) w1
             in if ret \<noteq> 0
                then let (closed, w3) = sys k (Close (mFd this1)) w2
                     in (False, this1\<lparr>mFd := - 1\<rparr>, w3)
                else (True, this1, w2))"

text \<open>
  \<^verbatim>\<open>bool TapInterface::destroyTapInterface()\<close>. The \<^verbatim>\<open>&&\<close> calls \<^verbatim>\<open>close\<close> only when
  \<^verbatim>\<open>mFd >= 0\<close>; when \<^verbatim>\<open>close\<close> does not return 0 the function returns before the
  assignment to \<^verbatim>\<open>mFd\<close>.
\<close>

definition destroyTapInterface ::
  "kernel \<Rightarrow> TapInterface \<Rightarrow> syscall list \<Rightarrow> bool \<times> TapInterface \<times> syscall list" where
  "destroyTapInterface k this w =
     (if 0 \<le>s mFd this
      then let (ret, w1) = sys k (Close (mFd this)) w
           in if ret \<noteq> 0 then (False, this, w1)
              else (True, this\<lparr>mFd := - 1\<rparr>, w1)
      else (True, this\<lparr>mFd := - 1\<rparr>, w))"

text \<open>\<^verbatim>\<open>bool TapInterface::isValid()\<close> and \<^verbatim>\<open>const std::string TapInterface::name()\<close>.\<close>

definition isValid :: "TapInterface \<Rightarrow> bool \<times> TapInterface" where
  "isValid this = (0 \<le>s mFd this, this)"

definition name :: "TapInterface \<Rightarrow> string \<times> TapInterface" where
  "name this = (TAP_NAME, this)"

text \<open>\<^verbatim>\<open>bool TapInterface::up(netlink)\<close> and \<^verbatim>\<open>bool TapInterface::down(netlink)\<close>.\<close>

definition up ::
  "Netlink \<Rightarrow> TapInterface \<Rightarrow> netlink_call list \<Rightarrow> bool \<times> TapInterface \<times> netlink_call list" where
  "up netlink this n =
     (if mFd this <s 0 then (False, this, n)
      else let (r, n1) = ifaceUp netlink TAP_NAME n in (r, this, n1))"

definition down ::
  "Netlink \<Rightarrow> TapInterface \<Rightarrow> netlink_call list \<Rightarrow> bool \<times> TapInterface \<times> netlink_call list" where
  "down netlink this n =
     (if mFd this <s 0 then (False, this, n)
      else let (r, n1) = ifaceDown netlink TAP_NAME n in (r, this, n1))"

text \<open>
  \<^verbatim>\<open>std::array<uint8_t, 6> TapInterface::macAddress(netlink)\<close> and
  \<^verbatim>\<open>bool TapInterface::setMACAddress(netlink, address)\<close>.
\<close>

definition macAddress ::
  "Netlink \<Rightarrow> TapInterface \<Rightarrow> netlink_call list \<Rightarrow> mac \<times> TapInterface \<times> netlink_call list" where
  "macAddress netlink this n =
     (let (r, n1) = getIfaceMAC netlink TAP_NAME n in (r, this, n1))"

definition setMACAddress ::
  "Netlink \<Rightarrow> mac \<Rightarrow> TapInterface \<Rightarrow> netlink_call list
     \<Rightarrow> bool \<times> TapInterface \<times> netlink_call list" where
  "setMACAddress netlink address this n =
     (let (r, n1) = setIfaceMAC netlink TAP_NAME address n in (r, this, n1))"

subsection \<open>Concrete kernels and Netlink objects\<close>

text \<open>
  Three kernels on which the member functions are run: one on which every call succeeds
  (\<^verbatim>\<open>open\<close> returning descriptor 3), one that rejects \<^verbatim>\<open>TUNSETIFF\<close>, and one whose
  \<^verbatim>\<open>close\<close> reports an error; and a Netlink object that gives the same answers to every
  call.
\<close>

fun reply_ok :: "syscall \<Rightarrow> c_int" where
  "reply_ok (Open path flags) = 3"
| "reply_ok (Ioctl fd request ifr) = 0"
| "reply_ok (Close fd) = 0"

definition kernel_ok :: kernel where
  "kernel_ok w c = reply_ok c"

fun reply_ioctl_fails :: "syscall \<Rightarrow> c_int" where
  "reply_ioctl_fails (Open path flags) = 3"
| "reply_ioctl_fails (Ioctl fd request ifr) = - 1"
| "reply_ioctl_fails (Close fd) = 0"

definition kernel_ioctl_fails :: kernel where
  "kernel_ioctl_fails w c = reply_ioctl_fails c"

fun reply_close_fails :: "syscall \<Rightarrow> c_int" where
  "reply_close_fails (Open path flags) = 3"
| "reply_close_fails (Ioctl fd request ifr) = 0"
| "reply_close_fails (Close fd) = - 1"

definition kernel_close_fails :: kernel where
  "kernel_close_fails w c = reply_close_fails c"

definition netlink_const :: "bool \<Rightarrow> mac \<Rightarrow> Netlink" where
  "netlink_const b m =
     \<lparr>ifaceUp_result = (\<lambda>n ifname. b), ifaceDown_result = (\<lambda>n ifname. b),
      getIfaceMAC_result = (\<lambda>n ifname. m), setIfaceMAC_result = (\<lambda>n ifname address. b)\<rparr>"

section \<open>Properties\<close>

subsection \<open>Auxiliary facts\<close>

text \<open>The two tests the code makes on \<^verbatim>\<open>mFd\<close> are each other's negation.\<close>

lemma invalid_iff: "mFd this <s 0 \<longleftrightarrow> \<not> 0 \<le>s mFd this"
  by (simp add: signed.not_le)

text \<open>The name has ten characters and fits the name field of the request whole.\<close>

lemma tap_ifr_name: "strncpy TAP_NAME IFNAMSIZ = TAP_NAME"
  by (simp add: strncpy_def TAP_NAME_def IFNAMSIZ_def)

text \<open>
  On any kernel and any valid handle: when \<^verbatim>\<open>close\<close> does not return 0,
  \<^verbatim>\<open>destroyTapInterface\<close> returns false with the handle as it was before the call.
\<close>

lemma destroy_close_error_retains:
  assumes "0 \<le>s mFd this" and "k w (Close (mFd this)) \<noteq> 0"
  shows "destroyTapInterface k this w = (False, this, w @ [Close (mFd this)])"
  using assms by (simp add: destroyTapInterface_def sys_def)

subsection \<open>Destroying and creating\<close>

text \<open>
  C1. The claim is that a destroy whose close reports an error returns failure and leaves
  the handle invalid, the old descriptor not retained. The code returns before it resets
  \<^verbatim>\<open>mFd\<close>: on the kernel whose \<^verbatim>\<open>close\<close> returns -1, destroying the handle that holds
  descriptor 3 returns false after one \<^verbatim>\<open>close(3)\<close>, the handle still holds 3 and
  \<^verbatim>\<open>isValid\<close> is still true, and a second destroy calls \<^verbatim>\<open>close(3)\<close> once more.
\<close>

theorem destroy_close_error_keeps_descriptor:
  "destroyTapInterface kernel_close_fails \<lparr>mFd = 3\<rparr> [] = (False, \<lparr>mFd = 3\<rparr>, [Close 3])
   \<and> isValid \<lparr>mFd = 3\<rparr> = (True, \<lparr>mFd = 3\<rparr>)
   \<and> destroyTapInterface kernel_close_fails \<lparr>mFd = 3\<rparr> [Close 3]
       = (False, \<lparr>mFd = 3\<rparr>, [Close 3, Close 3])"
  by (simp add: destroyTapInterface_def isValid_def sys_def kernel_close_fails_def word_sle_eq)

text \<open>
  C2. From every invalid handle, when \<^verbatim>\<open>open\<close> returns a descriptor \<open>fd \<ge> 0\<close> and the
  \<^verbatim>\<open>TUNSETIFF\<close> request on it does not return 0, create makes exactly three system
  calls, the open, the request on \<open>fd\<close> and a close of \<open>fd\<close>, returns false, and leaves
  \<^verbatim>\<open>mFd = -1\<close>: \<^verbatim>\<open>isValid\<close> is false afterwards, and a handle that held the sentinel -1
  before the call is the same after it.
\<close>

theorem create_ioctl_failure_closes:
  assumes "\<not> fst (isValid this)"
    and "fd = k w (Open ''/dev/net/tun'' {O_CLOEXEC, O_RDWR})"
    and "0 \<le>s fd"
    and "k (w @ [Open ''/dev/net/tun'' {O_CLOEXEC, O_RDWR}])
           (Ioctl fd TUNSETIFF \<lparr>ifr_name = TAP_NAME, ifr_flags = {IFF_TAP, IFF_NO_PI, IFF_ONE_QUEUE}\<rparr>) \<noteq> 0"
  shows "createTapInterface k this w =
           (False, this\<lparr>mFd := - 1\<rparr>,
            w @ [Open ''/dev/net/tun'' {O_CLOEXEC, O_RDWR},
                 Ioctl fd TUNSETIFF \<lparr>ifr_name = TAP_NAME, ifr_flags = {IFF_TAP, IFF_NO_PI, IFF_ONE_QUEUE}\<rparr>,
                 Close fd])
         \<and> isValid (this\<lparr>mFd := - 1\<rparr>) = (False, this\<lparr>mFd := - 1\<rparr>)
         \<and> (mFd this = - 1 \<longrightarrow> this\<lparr>mFd := - 1\<rparr> = this)"
proof -
  have inv: "\<not> 0 \<le>s mFd this"
    using assms(1) by (simp add: isValid_def)
  have nneg: "\<not> fd <s 0"
    using assms(3) by (simp add: invalid_iff)
  have run: "createTapInterface k this w =
           (False, this\<lparr>mFd := - 1\<rparr>,
            w @ [Open ''/dev/net/tun'' {O_CLOEXEC, O_RDWR},
                 Ioctl fd TUNSETIFF \<lparr>ifr_name = TAP_NAME, ifr_flags = {IFF_TAP, IFF_NO_PI, IFF_ONE_QUEUE}\<rparr>,
                 Close fd])"
    using inv nneg assms(4) unfolding assms(2)
    by (simp add: createTapInterface_def sys_def tap_ifr_name)
  have after: "isValid (this\<lparr>mFd := - 1\<rparr>) = (False, this\<lparr>mFd := - 1\<rparr>)"
    by (simp add: isValid_def word_sle_eq)
  have same: "mFd this = - 1 \<longrightarrow> this\<lparr>mFd := - 1\<rparr> = this"
    by (cases this) simp
  from run after same show ?thesis by simp
qed

theorem create_ioctl_failure_closes_witness:
  "\<not> fst (isValid \<lparr>mFd = - 1\<rparr>)
   \<and> (3::c_int) = kernel_ioctl_fails [] (Open ''/dev/net/tun'' {O_CLOEXEC, O_RDWR})
   \<and> (0::c_int) \<le>s 3
   \<and> kernel_ioctl_fails [Open ''/dev/net/tun'' {O_CLOEXEC, O_RDWR}]
        (Ioctl 3 TUNSETIFF \<lparr>ifr_name = TAP_NAME, ifr_flags = {IFF_TAP, IFF_NO_PI, IFF_ONE_QUEUE}\<rparr>) \<noteq> 0
   \<and> createTapInterface kernel_ioctl_fails \<lparr>mFd = - 1\<rparr> [] =
         (False, \<lparr>mFd = - 1\<rparr>,
          [Open ''/dev/net/tun'' {O_CLOEXEC, O_RDWR},
           Ioctl 3 TUNSETIFF \<lparr>ifr_name = ''dobby_tap0'', ifr_flags = {IFF_TAP, IFF_NO_PI, IFF_ONE_QUEUE}\<rparr>,
           Close 3])
   \<and> isValid \<lparr>mFd = - 1\<rparr> = (False, \<lparr>mFd = - 1\<rparr>)"
  using create_ioctl_failure_closes [of "\<lparr>mFd = - 1\<rparr>" 3 kernel_ioctl_fails "[]"]
  by (simp add: isValid_def kernel_ioctl_fails_def word_sle_eq TAP_NAME_def)

text \<open>
  C3. On every valid handle create returns true at once: the handle is unchanged and no
  system call is made. Hence after any create that returned true, from whatever handle, a
  second create returns true and changes neither the handle nor the record of system
  calls: the two calls do what the first did alone.
\<close>

theorem create_idempotent:
  "(0 \<le>s mFd this \<longrightarrow> createTapInterface k this w = (True, this, w))
   \<and> (createTapInterface k this w = (True, this1, w1) \<longrightarrow>
        0 \<le>s mFd this1 \<and> createTapInterface k this1 w1 = (True, this1, w1))"
proof -
  have again: "createTapInterface k t v = (True, t, v)" if "0 \<le>s mFd t" for t v
    using that by (simp add: createTapInterface_def)
  have valid: "0 \<le>s mFd this1" if "createTapInterface k this w = (True, this1, w1)"
    using that
    by (auto simp: createTapInterface_def sys_def invalid_iff Let_def split: if_splits)
  from again valid show ?thesis by blast
qed

theorem create_idempotent_witness:
  "0 \<le>s mFd \<lparr>mFd = 3\<rparr>
   \<and> createTapInterface kernel_ok \<lparr>mFd = 3\<rparr> [] = (True, \<lparr>mFd = 3\<rparr>, [])
   \<and> createTapInterface kernel_ok \<lparr>mFd = - 1\<rparr> [] =
         (True, \<lparr>mFd = 3\<rparr>,
          [Open ''/dev/net/tun'' {O_CLOEXEC, O_RDWR},
           Ioctl 3 TUNSETIFF \<lparr>ifr_name = ''dobby_tap0'', ifr_flags = {IFF_TAP, IFF_NO_PI, IFF_ONE_QUEUE}\<rparr>])
   \<and> createTapInterface kernel_ok \<lparr>mFd = 3\<rparr>
         [Open ''/dev/net/tun'' {O_CLOEXEC, O_RDWR},
          Ioctl 3 TUNSETIFF \<lparr>ifr_name = ''dobby_tap0'', ifr_flags = {IFF_TAP, IFF_NO_PI, IFF_ONE_QUEUE}\<rparr>] =
         (True, \<lparr>mFd = 3\<rparr>,
          [Open ''/dev/net/tun'' {O_CLOEXEC, O_RDWR},
           Ioctl 3 TUNSETIFF \<lparr>ifr_name = ''dobby_tap0'', ifr_flags = {IFF_TAP, IFF_NO_PI, IFF_ONE_QUEUE}\<rparr>])"
proof -
  have valid: "0 \<le>s mFd \<lparr>mFd = 3\<rparr>"
    by (simp add: word_sle_eq)
  have first: "createTapInterface kernel_ok \<lparr>mFd = - 1\<rparr> [] =
         (True, \<lparr>mFd = 3\<rparr>,
          [Open ''/dev/net/tun'' {O_CLOEXEC, O_RDWR},
           Ioctl 3 TUNSETIFF \<lparr>ifr_name = ''dobby_tap0'', ifr_flags = {IFF_TAP, IFF_NO_PI, IFF_ONE_QUEUE}\<rparr>])"
    by (simp add: createTapInterface_def sys_def kernel_ok_def strncpy_def TAP_NAME_def
        IFNAMSIZ_def word_sle_eq word_sless_alt)
  from valid first
    create_idempotent [of "\<lparr>mFd = 3\<rparr>" kernel_ok "[]"]
    create_idempotent [of "\<lparr>mFd = - 1\<rparr>" kernel_ok "[]" "\<lparr>mFd = 3\<rparr>"
      "[Open ''/dev/net/tun'' {O_CLOEXEC, O_RDWR},
        Ioctl 3 TUNSETIFF \<lparr>ifr_name = ''dobby_tap0'', ifr_flags = {IFF_TAP, IFF_NO_PI, IFF_ONE_QUEUE}\<rparr>]"]
  show ?thesis by simp
qed

text \<open>
  C6. Whatever the handle and the kernel: when create returns true, \<^verbatim>\<open>isValid\<close> is true on
  the handle it leaves and \<^verbatim>\<open>name\<close> returns \<^verbatim>\<open>"dobby_tap0"\<close>; when destroy returns true,
  \<^verbatim>\<open>isValid\<close> is false on the handle it leaves.
\<close>

theorem create_destroy_success:
  "(createTapInterface k this w = (True, this1, w1) \<longrightarrow>
      fst (isValid this1) \<and> fst (name this1) = ''dobby_tap0'')
   \<and> (destroyTapInterface k this w = (True, this2, w2) \<longrightarrow> \<not> fst (isValid this2))"
proof -
  have created: "fst (isValid this1)" if "createTapInterface k this w = (True, this1, w1)"
    using that
    by (auto simp: createTapInterface_def isValid_def sys_def invalid_iff Let_def split: if_splits)
  have named: "fst (name this1) = ''dobby_tap0''"
    by (simp add: name_def TAP_NAME_def)
  have sentinel: "\<not> 0 \<le>s (- 1 :: c_int)"
    by (simp add: word_sle_eq)
  have destroyed: "\<not> fst (isValid this2)" if "destroyTapInterface k this w = (True, this2, w2)"
    using that sentinel
    by (auto simp: destroyTapInterface_def isValid_def sys_def Let_def split: if_splits)
  from created named destroyed show ?thesis by blast
qed

theorem create_destroy_success_witness:
  "createTapInterface kernel_ok \<lparr>mFd = - 1\<rparr> [] =
     (True, \<lparr>mFd = 3\<rparr>,
      [Open ''/dev/net/tun'' {O_CLOEXEC, O_RDWR},
       Ioctl 3 TUNSETIFF \<lparr>ifr_name = ''dobby_tap0'', ifr_flags = {IFF_TAP, IFF_NO_PI, IFF_ONE_QUEUE}\<rparr>])
   \<and> fst (isValid \<lparr>mFd = 3\<rparr>) \<and> fst (name \<lparr>mFd = 3\<rparr>) = ''dobby_tap0''
   \<and> destroyTapInterface kernel_ok \<lparr>mFd = 3\<rparr> [] = (True, \<lparr>mFd = - 1\<rparr>, [Close 3])
   \<and> \<not> fst (isValid \<lparr>mFd = - 1\<rparr>)"
proof -
  have c: "createTapInterface kernel_ok \<lparr>mFd = - 1\<rparr> [] =
     (True, \<lparr>mFd = 3\<rparr>,
      [Open ''/dev/net/tun'' {O_CLOEXEC, O_RDWR},
       Ioctl 3 TUNSETIFF \<lparr>ifr_name = ''dobby_tap0'', ifr_flags = {IFF_TAP, IFF_NO_PI, IFF_ONE_QUEUE}\<rparr>])"
    by (simp add: createTapInterface_def sys_def kernel_ok_def strncpy_def TAP_NAME_def
        IFNAMSIZ_def word_sle_eq word_sless_alt)
  have d: "destroyTapInterface kernel_ok \<lparr>mFd = 3\<rparr> [] = (True, \<lparr>mFd = - 1\<rparr>, [Close 3])"
    by (simp add: destroyTapInterface_def sys_def kernel_ok_def word_sle_eq)
  from c d
    create_destroy_success [of kernel_ok "\<lparr>mFd = - 1\<rparr>" "[]" "\<lparr>mFd = 3\<rparr>"
      "[Open ''/dev/net/tun'' {O_CLOEXEC, O_RDWR},
        Ioctl 3 TUNSETIFF \<lparr>ifr_name = ''dobby_tap0'', ifr_flags = {IFF_TAP, IFF_NO_PI, IFF_ONE_QUEUE}\<rparr>]"]
    create_destroy_success [of kernel_ok "\<lparr>mFd = 3\<rparr>" "[]" _ _ "\<lparr>mFd = - 1\<rparr>" "[Close 3]"]
  show ?thesis by simp
qed

text \<open>
  C7. On every handle on which \<^verbatim>\<open>isValid\<close> is false, destroy returns true, makes no system
  call (so closes no descriptor), and leaves \<^verbatim>\<open>mFd = -1\<close>, on which \<^verbatim>\<open>isValid\<close> is false.
\<close>

theorem destroy_invalid:
  assumes "\<not> fst (isValid this)"
  shows "destroyTapInterface k this w = (True, this\<lparr>mFd := - 1\<rparr>, w)
       \<and> \<not> fst (isValid (this\<lparr>mFd := - 1\<rparr>))"
  using assms by (simp add: destroyTapInterface_def isValid_def word_sle_eq)

theorem destroy_invalid_witness:
  "\<not> fst (isValid \<lparr>mFd = - 1\<rparr>)
   \<and> destroyTapInterface kernel_close_fails \<lparr>mFd = - 1\<rparr> [] = (True, \<lparr>mFd = - 1\<rparr>, [])"
  using destroy_invalid [of "\<lparr>mFd = - 1\<rparr>" kernel_close_fails "[]"]
  by (simp add: isValid_def word_sle_eq)

subsection \<open>The queries\<close>

text \<open>
  C9. \<^verbatim>\<open>isValid\<close> and \<^verbatim>\<open>name\<close> leave every handle as it was; \<^verbatim>\<open>isValid\<close> returns true
  exactly when the descriptor, read as a signed number, is not negative; \<^verbatim>\<open>name\<close>
  returns \<^verbatim>\<open>"dobby_tap0"\<close> on every handle, created or not.
\<close>

theorem queries_pure:
  "snd (isValid this) = this \<and> snd (name this) = this
   \<and> fst (isValid this) = (0 \<le> sint (mFd this))
   \<and> fst (name this) = ''dobby_tap0''"
  by (simp add: isValid_def name_def TAP_NAME_def word_sle_eq)

subsection \<open>The link operations\<close>

text \<open>
  C4. On every handle on which \<^verbatim>\<open>isValid\<close> is false and for every Netlink object, up and
  down return false, leave the handle as it was and make no call on the Netlink object.
\<close>

theorem up_down_invalid:
  assumes "\<not> fst (isValid this)"
  shows "up netlink this n = (False, this, n) \<and> down netlink this n = (False, this, n)"
  using assms by (simp add: up_def down_def isValid_def invalid_iff)

theorem up_down_invalid_witness:
  "\<not> fst (isValid \<lparr>mFd = - 1\<rparr>)
   \<and> up (netlink_const True (2, 0, 0, 0, 0, 1)) \<lparr>mFd = - 1\<rparr> [] = (False, \<lparr>mFd = - 1\<rparr>, [])
   \<and> down (netlink_const True (2, 0, 0, 0, 0, 1)) \<lparr>mFd = - 1\<rparr> [] = (False, \<lparr>mFd = - 1\<rparr>, [])"
  using up_down_invalid [of "\<lparr>mFd = - 1\<rparr>" "netlink_const True (2, 0, 0, 0, 0, 1)" "[]"]
  by (simp add: isValid_def word_sle_eq)

text \<open>
  C5. On every handle on which \<^verbatim>\<open>isValid\<close> is true and for every Netlink object, up makes
  exactly one call on the object, \<^verbatim>\<open>ifaceUp("dobby_tap0")\<close>, and returns the result of
  that call; down makes exactly one call, \<^verbatim>\<open>ifaceDown("dobby_tap0")\<close>, and returns its
  result. The handle is left as it was.
\<close>

theorem up_down_valid:
  assumes "fst (isValid this)"
  shows "up netlink this n =
           (ifaceUp_result netlink n ''dobby_tap0'', this, n @ [IfaceUp ''dobby_tap0''])
       \<and> down netlink this n =
           (ifaceDown_result netlink n ''dobby_tap0'', this, n @ [IfaceDown ''dobby_tap0''])"
  using assms
  by (simp add: up_def down_def isValid_def invalid_iff ifaceUp_def ifaceDown_def TAP_NAME_def)

theorem up_down_valid_witness:
  "fst (isValid \<lparr>mFd = 3\<rparr>)
   \<and> up (netlink_const True (2, 0, 0, 0, 0, 1)) \<lparr>mFd = 3\<rparr> [] =
         (True, \<lparr>mFd = 3\<rparr>, [IfaceUp ''dobby_tap0''])
   \<and> down (netlink_const False (2, 0, 0, 0, 0, 1)) \<lparr>mFd = 3\<rparr> [IfaceUp ''dobby_tap0''] =
         (False, \<lparr>mFd = 3\<rparr>, [IfaceUp ''dobby_tap0'', IfaceDown ''dobby_tap0''])"
  using up_down_valid [of "\<lparr>mFd = 3\<rparr>" "netlink_const True (2, 0, 0, 0, 0, 1)" "[]"]
    up_down_valid [of "\<lparr>mFd = 3\<rparr>" "netlink_const False (2, 0, 0, 0, 0, 1)"
      "[IfaceUp ''dobby_tap0'']"]
  by (simp add: isValid_def word_sle_eq netlink_const_def)

text \<open>
  C8. On every handle, valid or not, and for every Netlink object, \<^verbatim>\<open>macAddress\<close> makes
  exactly one call on the object, \<^verbatim>\<open>getIfaceMAC("dobby_tap0")\<close>, and returns the six
  bytes that call returns; \<^verbatim>\<open>setMACAddress\<close> makes exactly one call,
  \<^verbatim>\<open>setIfaceMAC("dobby_tap0", address)\<close> with the address it was given, and returns the
  boolean that call returns. Neither looks at \<^verbatim>\<open>mFd\<close>.
\<close>

theorem mac_delegation:
  "macAddress netlink this n =
     (getIfaceMAC_result netlink n ''dobby_tap0'', this, n @ [GetIfaceMAC ''dobby_tap0''])
   \<and> setMACAddress netlink address this n =
     (setIfaceMAC_result netlink n ''dobby_tap0'' address, this,
      n @ [SetIfaceMAC ''dobby_tap0'' address])"
  by (simp add: macAddress_def setMACAddress_def getIfaceMAC_def setIfaceMAC_def TAP_NAME_def)

text \<open>
  C10. For every handle and every Netlink object, the handle after up, down,
  \<^verbatim>\<open>macAddress\<close> or \<^verbatim>\<open>setMACAddress\<close> is the handle before: the descriptor, the only
  member, is unchanged, and with it what \<^verbatim>\<open>isValid\<close> returns. The two queries change
  nothing either, which leaves create and destroy as the only functions that assign
  \<^verbatim>\<open>mFd\<close>.
\<close>

theorem link_operations_keep_handle:
  "fst (snd (up netlink this n)) = this
   \<and> fst (snd (down netlink this n)) = this
   \<and> fst (snd (macAddress netlink this n)) = this
   \<and> fst (snd (setMACAddress netlink address this n)) = this
   \<and> mFd (snd (isValid this)) = mFd this
   \<and> mFd (snd (name this)) = mFd this"
  by (simp add: up_def down_def macAddress_def setMACAddress_def isValid_def name_def
      split: prod.split)

end
